theory Spec2Isabelle
  imports Complex_Main "HOL-Library.Sublist"
begin

section \<open>Python values used by the sandbox\<close>

text \<open>
  The sandbox (\<^verbatim>\<open>src/api/sandbox/executor.py\<close>, \<^verbatim>\<open>src/api/sandbox/main.py\<close>) is control
  flow around the Python interpreter and the operating system. The model keeps that control
  flow statement by statement; everything the interpreter or the operating system decides
  (what \<^verbatim>\<open>compile\<close> returns, whether a module exists, what the clock reads, whether the
  worker process has exited when the bounded join returns) is a field of an environment
  record.

  Python strings are \<^typ>\<open>string\<close>; \<^verbatim>\<open>a in b\<close> on strings is \<^const>\<open>sublist\<close>,
  \<^verbatim>\<open>b.startswith(a)\<close> is \<^const>\<open>prefix\<close>.
\<close>

subsection \<open>Exception classes\<close>

datatype exc_class =
    BaseException | Exception
  | SyntaxError | IndentationError
  | OSError | TimeoutError | PermissionError | FileNotFoundError
  | MemoryError
  | ImportError | ModuleNotFoundError
  | ArithmeticError | ZeroDivisionError
  | ValueError | NameError | RuntimeError
  | SystemExit | KeyboardInterrupt

text \<open>The proper ancestors of a class, nearest first (the built-in hierarchy).\<close>

fun bases :: "exc_class \<Rightarrow> exc_class list" where
  "bases BaseException = []"
| "bases Exception = [BaseException]"
| "bases SyntaxError = [Exception, BaseException]"
| "bases IndentationError = [SyntaxError, Exception, BaseException]"
| "bases OSError = [Exception, BaseException]"
| "bases TimeoutError = [OSError, Exception, BaseException]"
| "bases PermissionError = [OSError, Exception, BaseException]"
| "bases FileNotFoundError = [OSError, Exception, BaseException]"
| "bases MemoryError = [Exception, BaseException]"
| "bases ImportError = [Exception, BaseException]"
| "bases ModuleNotFoundError = [ImportError, Exception, BaseException]"
| "bases ArithmeticError = [Exception, BaseException]"
| "bases ZeroDivisionError = [ArithmeticError, Exception, BaseException]"
| "bases ValueError = [Exception, BaseException]"
| "bases NameError = [Exception, BaseException]"
| "bases RuntimeError = [Exception, BaseException]"
| "bases SystemExit = [BaseException]"
| "bases KeyboardInterrupt = [BaseException]"

definition issubclass :: "exc_class \<Rightarrow> exc_class \<Rightarrow> bool" where
  "issubclass c d = (c = d \<or> d \<in> set (bases c))"

text \<open>
  An exception object: its class, its message (\<^verbatim>\<open>str(e)\<close>, and \<^verbatim>\<open>e.msg\<close> of a
  \<^verbatim>\<open>SyntaxError\<close>) and the \<^verbatim>\<open>lineno\<close> attribute, which is \<^verbatim>\<open>None\<close> when the error
  carries no position.
\<close>

datatype py_exc = PyExc (cls: exc_class) (msg: string) (lineno: "nat option")

definition isinstance :: "py_exc \<Rightarrow> exc_class \<Rightarrow> bool" where
  "isinstance e c = issubclass (cls e) c"

fun class_name :: "exc_class \<Rightarrow> string" where
  "class_name BaseException = ''BaseException''"
| "class_name Exception = ''Exception''"
| "class_name SyntaxError = ''SyntaxError''"
| "class_name IndentationError = ''IndentationError''"
| "class_name OSError = ''OSError''"
| "class_name TimeoutError = ''TimeoutError''"
| "class_name PermissionError = ''PermissionError''"
| "class_name FileNotFoundError = ''FileNotFoundError''"
| "class_name MemoryError = ''MemoryError''"
| "class_name ImportError = ''ImportError''"
| "class_name ModuleNotFoundError = ''ModuleNotFoundError''"
| "class_name ArithmeticError = ''ArithmeticError''"
| "class_name ZeroDivisionError = ''ZeroDivisionError''"
| "class_name ValueError = ''ValueError''"
| "class_name NameError = ''NameError''"
| "class_name RuntimeError = ''RuntimeError''"
| "class_name SystemExit = ''SystemExit''"
| "class_name KeyboardInterrupt = ''KeyboardInterrupt''"

subsection \<open>Formatting\<close>

text \<open>\<^verbatim>\<open>str(n)\<close> of an integer, as an f-string renders it.\<close>

definition digit_char :: "nat \<Rightarrow> char" where
  "digit_char d = ''0123456789'' ! d"

fun str_nat :: "nat \<Rightarrow> string" where
  "str_nat n = (if n < 10 then [digit_char n] else str_nat (n div 10) @ [digit_char (n mod 10)])"

declare str_nat.simps [simp del]

definition str_int :: "int \<Rightarrow> string" where
  "str_int i = (if i < 0 then ''-'' @ str_nat (nat (- i)) else str_nat (nat i))"

text \<open>\<^verbatim>\<open>f"{e.lineno}"\<close>: the number, or the text \<^verbatim>\<open>None\<close>.\<close>

definition str_lineno :: "nat option \<Rightarrow> string" where
  "str_lineno l = (case l of None \<Rightarrow> ''None'' | Some n \<Rightarrow> str_nat n)"

text \<open>\<^verbatim>\<open>int(x)\<close> of a float truncates towards zero.\<close>

definition py_int :: "real \<Rightarrow> int" where
  "py_int x = (if 0 \<le> x then \<lfloor>x\<rfloor> else \<lceil>x\<rceil>)"

text \<open>\<^verbatim>\<open>s.lower()\<close> on the ASCII letters; every other character is kept.\<close>

definition lower_char :: "char \<Rightarrow> char" where
  "lower_char c =
     (case map_of (zip ''ABCDEFGHIJKLMNOPQRSTUVWXYZ'' ''abcdefghijklmnopqrstuvwxyz'') c of
        Some d \<Rightarrow> d
      | None \<Rightarrow> c)"

definition lower :: "string \<Rightarrow> string" where
  "lower s = map lower_char s"

section \<open>The capability restriction layer\<close>

text \<open>\<^verbatim>\<open>BLOCKED_MODULES\<close> of \<^verbatim>\<open>executor.py\<close> (a frozenset; the order plays no part).\<close>

definition BLOCKED_MODULES :: "string list" where
  "BLOCKED_MODULES =
    [''subprocess'', ''os.system'', ''shutil'', ''socket'', ''http'',
     ''urllib'', ''requests'', ''ftplib'', ''smtplib'', ''telnetlib'',
     ''xmlrpc'', ''ctypes'', ''importlib'', ''code'', ''codeop'',
     ''compile'', ''compileall'', ''py_compile'', ''zipimport'',
     ''pkgutil'', ''ensurepip'', ''pip'', ''venv'', ''webbrowser'',
     ''antigravity'', ''turtle'', ''tkinter'', ''multiprocessing'',
     ''threading'', ''signal'', ''pathlib'']"

text \<open>
  The test of \<^verbatim>\<open>safe_import\<close>:
  \<^verbatim>\<open>name in BLOCKED_MODULES or any(name.startswith(m + ".") for m in BLOCKED_MODULES)\<close>.
\<close>

definition import_blocked :: "string \<Rightarrow> bool" where
  "import_blocked name =
     (List.member BLOCKED_MODULES name \<or> list_ex (\<lambda>m. prefix (m @ ''.'') name) BLOCKED_MODULES)"

definition import_denied_msg :: "string \<Rightarrow> string" where
  "import_denied_msg name =
     ''Module '' @ [CHR 0x27] @ name @ [CHR 0x27] @ '' is not allowed in the sandbox''"

text \<open>
  \<^verbatim>\<open>safe_import(name)\<close>: raises \<^verbatim>\<open>ImportError\<close> (\<open>Inl\<close>), or hands the name on to the
  interpreter's own import (\<open>Inr\<close>).
\<close>

definition safe_import :: "string \<Rightarrow> py_exc + string" where
  "safe_import name =
     (if import_blocked name then Inl (PyExc ImportError (import_denied_msg name) None)
      else Inr name)"

text \<open>
  \<^verbatim>\<open>safe_open(file, mode)\<close>, with the value of \<^verbatim>\<open>tempfile.gettempdir()\<close> as a parameter:
  raises \<^verbatim>\<open>PermissionError\<close> (\<open>Inl\<close>), or hands file and mode on to the built-in
  \<^verbatim>\<open>open\<close> (\<open>Inr\<close>).
\<close>

definition safe_open :: "string \<Rightarrow> string \<Rightarrow> string \<Rightarrow> py_exc + string \<times> string" where
  "safe_open tmpdir file mode =
     (if \<not> prefix ''/tmp'' file \<and> \<not> prefix tmpdir file
      then Inl (PyExc PermissionError ''File access denied: only /tmp is allowed'' None)
      else Inr (file, mode))"

section \<open>Snippets and their execution inside the restricted environment\<close>

text \<open>
  A submitted snippet is seen through what it does to the restricted environment: it writes
  to a captured stream, imports a module, opens a file, raises, outlasts the limits, or guards
  a block with \<^verbatim>\<open>try: ... except Exception: ...\<close>. It outlasts the limits either
  computing (\<open>Spin\<close>, a loop of bytecode such as \<^verbatim>\<open>while True: pass\<close>, which uses
  processor time) or blocked (\<open>Sleep\<close>, such as \<^verbatim>\<open>time.sleep(60)\<close>, which uses none).
\<close>

datatype stream = Stdout | Stderr

datatype stmt =
    Write stream string
  | Import string
  | Open string string
  | Raise py_exc
  | Spin
  | Sleep
  | Try "stmt list" "stmt list"

datatype rlimit = RLIMIT_AS | RLIMIT_CPU | RLIMIT_NPROC

text \<open>What the worker process does to the operating system and the interpreter, in order.\<close>

datatype wevent =
    SetRLimit rlimit int int
  | SignalAlarm int
  | Redirect
  | Compile
  | ExecStart
  | OriginalImport string
  | OriginalOpen string string
  | QueuePut
  | Restore

text \<open>
  What the operating system does to the worker process, as the supervisor finds it when
  \<^verbatim>\<open>process.join(timeout + 2)\<close> returns: left alone (it has exited if its code came to
  an end or its own CPU-time limit ended it, and once its queue is flushed), ended from
  outside before it wrote to the queue, or not yet finished although its code has an end.
\<close>

datatype os_fate = Undisturbed | KilledEarly | StillRunning

text \<open>
  The environment of one request, everything the code asks of the interpreter and the
  operating system:
  \<^item> \<open>has_setrlimit\<close>, \<open>has_sigalrm\<close>: the two \<^verbatim>\<open>hasattr\<close> tests of the worker;
  \<^item> \<open>setrlimit_error\<close>: the exception \<^verbatim>\<open>resource.setrlimit\<close> raises, if any;
  \<^item> \<open>tempdir\<close>: the value of \<^verbatim>\<open>tempfile.gettempdir()\<close>;
  \<^item> \<open>py_compile\<close>: the built-in \<^verbatim>\<open>compile\<close>, which raises or yields the snippet;
  \<^item> \<open>original_import\<close>, \<open>original_open\<close>: the exception the interpreter's own import and
    the built-in \<^verbatim>\<open>open\<close> raise, if any;
  \<^item> \<open>tb_frames\<close>: the frame lines of a traceback;
  \<^item> \<open>t_start\<close>, \<open>t_end\<close>: the two readings of \<^verbatim>\<open>time.time()\<close>, in seconds;
  \<^item> \<open>fate\<close>: see above;
  \<^item> \<open>start_error\<close>: the message of the \<^verbatim>\<open>OSError\<close> of \<^verbatim>\<open>process.start()\<close>, if it fails;
  \<^item> \<open>pickle_size\<close>, \<open>pipe_capacity\<close>: the bytes a pickled result dict with the given
    \<open>stdout\<close> and \<open>stderr\<close> takes, and the bytes the pipe of the queue holds unread;
  \<^item> \<open>feeder_starts\<close>: whether the operating system lets the worker start a thread when it
    puts a result. \<^verbatim>\<open>Queue.put\<close> starts the feeder thread of the queue at the first item.
    The kernel counts a thread against \<^verbatim>\<open>RLIMIT_NPROC\<close>, which the worker has set to zero
    (a worker running as root is exempt), and the stack of the thread against
    \<^verbatim>\<open>RLIMIT_AS\<close>; where either forbids the thread, the start fails with
    \<^verbatim>\<open>RuntimeError: can't start new thread\<close>.
\<close>

record env =
  has_setrlimit :: bool
  setrlimit_error :: "rlimit \<Rightarrow> int \<Rightarrow> int \<Rightarrow> py_exc option"
  has_sigalrm :: bool
  tempdir :: string
  py_compile :: "string \<Rightarrow> py_exc + stmt list"
  original_import :: "string \<Rightarrow> py_exc option"
  original_open :: "string \<Rightarrow> string \<Rightarrow> py_exc option"
  tb_frames :: "py_exc \<Rightarrow> string"
  t_start :: real
  t_end :: real
  fate :: os_fate
  start_error :: "string option"
  pickle_size :: "string \<Rightarrow> string \<Rightarrow> nat"
  pipe_capacity :: nat
  feeder_starts :: bool

text \<open>
  The state of the worker while the snippet runs: the two captured streams, whether the alarm
  is armed, whether the CPU-time limit is in force, and the events so far.
\<close>

record xstate =
  out :: string
  err :: string
  alarm :: bool
  cpu_limited :: bool
  trace :: "wevent list"

text \<open>
  How \<^verbatim>\<open>exec\<close> ends: it returns, an exception leaves it, it never returns, or the kernel
  ends the process with \<^verbatim>\<open>SIGXCPU\<close> when the soft CPU-time limit is used up.
\<close>

datatype outcome = Normal xstate | Raised py_exc xstate | Diverges xstate | Killed xstate

definition log :: "wevent list \<Rightarrow> xstate \<Rightarrow> xstate" where
  "log es st = st\<lparr>trace := trace st @ es\<rparr>"

text \<open>
  \<^verbatim>\<open>exec(compiled, safe_globals)\<close>. An import statement calls \<^verbatim>\<open>safe_import\<close>, a call of
  \<^verbatim>\<open>open\<close> calls \<^verbatim>\<open>safe_open\<close>. A statement that outlasts the limits is interrupted
  after \<open>timeout\<close> seconds by the handler of \<^verbatim>\<open>SIGALRM\<close>, which raises
  \<^verbatim>\<open>TimeoutError\<close>, when the alarm is armed (it fires once). With no alarm left, a
  computing snippet uses up the soft CPU-time limit of \<open>timeout + 1\<close> seconds and the
  process is killed, where that limit is in force; a blocked snippet, and a computing one
  without the limit, does not return.
\<close>

fun exec_stmt :: "env \<Rightarrow> stmt \<Rightarrow> xstate \<Rightarrow> outcome"
  and exec_block :: "env \<Rightarrow> stmt list \<Rightarrow> xstate \<Rightarrow> outcome" where
  "exec_stmt e (Write Stdout s) st = Normal (st\<lparr>out := out st @ s\<rparr>)"
| "exec_stmt e (Write Stderr s) st = Normal (st\<lparr>err := err st @ s\<rparr>)"
| "exec_stmt e (Import name) st =
     (case safe_import name of
        Inl x \<Rightarrow> Raised x st
      | Inr n \<Rightarrow>
          (case original_import e n of
             Some x \<Rightarrow> Raised x (log [OriginalImport n] st)
           | None \<Rightarrow> Normal (log [OriginalImport n] st)))"
| "exec_stmt e (Open file mode) st =
     (case safe_open (tempdir e) file mode of
        Inl x \<Rightarrow> Raised x st
      | Inr (f, m) \<Rightarrow>
          (case original_open e f m of
             Some x \<Rightarrow> Raised x (log [OriginalOpen f m] st)
           | None \<Rightarrow> Normal (log [OriginalOpen f m] st)))"
| "exec_stmt e (Raise x) st = Raised x st"
| "exec_stmt e Spin st =
     (if alarm st then Raised (PyExc TimeoutError ''Code execution timed out'' None) (st\<lparr>alarm := False\<rparr>)
      else if cpu_limited st then Killed st
      else Diverges st)"
| "exec_stmt e Sleep st =
     (if alarm st then Raised (PyExc TimeoutError ''Code execution timed out'' None) (st\<lparr>alarm := False\<rparr>)
      else Diverges st)"
| "exec_stmt e (Try body handler) st =
     (case exec_block e body st of
        Raised x st' \<Rightarrow> if isinstance x Exception then exec_block e handler st' else Raised x st'
      | other \<Rightarrow> other)"
| "exec_block e [] st = Normal st"
| "exec_block e (s # ss) st =
     (case exec_stmt e s st of
        Normal st' \<Rightarrow> exec_block e ss st'
      | other \<Rightarrow> other)"

section \<open>The isolated execution worker\<close>

text \<open>The dict that travels through the queue and becomes the \<^verbatim>\<open>ExecuteResponse\<close>.\<close>

record exec_result =
  stdout :: string
  stderr :: string
  success :: bool
  error_type :: "string option"
  execution_time_ms :: int

text \<open>
  What one run of \<^verbatim>\<open>_execute_code\<close> leaves behind: its events, the items that reached
  the result queue, whether the function came to an end (by returning or by an exception
  leaving it), and whether the kernel ended the process at the CPU-time limit.
\<close>

record worker_run =
  w_trace :: "wevent list"
  w_queue :: "exec_result list"
  w_returned :: bool
  w_killed :: bool

text \<open>\<^verbatim>\<open>resource.setrlimit(r, (soft, hard))\<close>: raises, or is recorded.\<close>

definition setrlimit :: "env \<Rightarrow> rlimit \<Rightarrow> int \<Rightarrow> int \<Rightarrow> wevent list \<Rightarrow> py_exc + wevent list" where
  "setrlimit e r soft hard evs =
     (case setrlimit_error e r soft hard of
        Some x \<Rightarrow> Inl x
      | None \<Rightarrow> Inr (evs @ [SetRLimit r soft hard]))"

text \<open>The block under \<^verbatim>\<open>if hasattr(resource, "setrlimit")\<close>.\<close>

definition apply_limits :: "env \<Rightarrow> int \<Rightarrow> int \<Rightarrow> py_exc + wevent list" where
  "apply_limits e timeout memory_mb =
     (if has_setrlimit e then
        (let mem_bytes = memory_mb * 1024 * 1024 in
         case setrlimit e RLIMIT_AS mem_bytes mem_bytes [] of
           Inl x \<Rightarrow> Inl x
         | Inr evs1 \<Rightarrow>
             (case setrlimit e RLIMIT_CPU (timeout + 1) (timeout + 2) evs1 of
                Inl x \<Rightarrow> Inl x
              | Inr evs2 \<Rightarrow> setrlimit e RLIMIT_NPROC 0 0 evs2))
      else Inr [])"

text \<open>\<^verbatim>\<open>int((time.time() - start_time) * 1000)\<close>.\<close>

definition elapsed_ms :: "env \<Rightarrow> int" where
  "elapsed_ms e = py_int ((t_end e - t_start e) * 1000)"

text \<open>
  \<^verbatim>\<open>traceback.format_exc()\<close>: the header, the frames (which depend on the interpreter) and
  the line naming the exception.
\<close>

definition format_exc :: "env \<Rightarrow> py_exc \<Rightarrow> string" where
  "format_exc e x =
     ''Traceback (most recent call last):\<newline>'' @ tb_frames e x
       @ class_name (cls x) @ (if msg x = [] then [] else '': '' @ msg x) @ ''\<newline>''"

text \<open>
  \<^verbatim>\<open>result_queue.put(d)\<close>: the item reaches the queue when the feeder thread starts.
  When the thread cannot be started the put raises \<^verbatim>\<open>RuntimeError\<close>; the handlers that
  catch it (\<^verbatim>\<open>except Exception\<close> of the inner and of the outer \<^verbatim>\<open>try\<close>) put again and
  fail in the same way, so nothing reaches the queue and the exception leaves the function.
\<close>

definition queue_put :: "env \<Rightarrow> exec_result \<Rightarrow> exec_result list" where
  "queue_put e d = (if feeder_starts e then [d] else [])"

text \<open>
  The \<^verbatim>\<open>finally\<close> clause, after a result was put (or not, when the exception is no
  \<^verbatim>\<open>Exception\<close> and leaves the function).
\<close>

definition finish :: "env \<Rightarrow> xstate \<Rightarrow> exec_result option \<Rightarrow> worker_run" where
  "finish e st r =
     \<lparr>w_trace = trace st
                  @ (case r of None \<Rightarrow> [] | Some d \<Rightarrow> map (\<lambda>_. QueuePut) (queue_put e d))
                  @ [Restore] @ (if has_sigalrm e then [SignalAlarm 0] else []),
      w_queue = (case r of None \<Rightarrow> [] | Some d \<Rightarrow> queue_put e d),
      w_returned = True, w_killed = False\<rparr>"

text \<open>The \<^verbatim>\<open>except\<close> clauses of the inner \<^verbatim>\<open>try\<close>, in the order of the source.\<close>

definition classify :: "env \<Rightarrow> int \<Rightarrow> int \<Rightarrow> py_exc \<Rightarrow> xstate \<Rightarrow> exec_result option" where
  "classify e timeout memory_mb x st =
     (if isinstance x SyntaxError then
        Some \<lparr>stdout = out st,
              stderr = ''SyntaxError: '' @ msg x @ '' (line '' @ str_lineno (lineno x) @ '')'',
              success = False, error_type = Some ''syntax'',
              execution_time_ms = elapsed_ms e\<rparr>
      else if isinstance x TimeoutError then
        Some \<lparr>stdout = out st,
              stderr = ''TimeoutError: Code exceeded '' @ str_int timeout @ '' second time limit'',
              success = False, error_type = Some ''timeout'',
              execution_time_ms = timeout * 1000\<rparr>
      else if isinstance x MemoryError then
        Some \<lparr>stdout = out st,
              stderr = ''MemoryError: Code exceeded '' @ str_int memory_mb @ ''MB memory limit'',
              success = False, error_type = Some ''memory'',
              execution_time_ms = elapsed_ms e\<rparr>
      else if isinstance x Exception then
        Some \<lparr>stdout = out st,
              stderr = format_exc e x,
              success = False, error_type = Some ''runtime'',
              execution_time_ms = elapsed_ms e\<rparr>
      else None)"

text \<open>
  The state of the worker when it reaches the inner \<^verbatim>\<open>try\<close>: the limits are set
  where the platform has \<^verbatim>\<open>setrlimit\<close>, the alarm is armed where it has
  \<^verbatim>\<open>SIGALRM\<close>, both streams are redirected into empty buffers.
\<close>

definition start_state :: "env \<Rightarrow> int \<Rightarrow> wevent list \<Rightarrow> xstate" where
  "start_state e timeout evs =
     \<lparr>out = [], err = [], alarm = has_sigalrm e, cpu_limited = has_setrlimit e,
      trace = evs @ (if has_sigalrm e then [SignalAlarm timeout] else []) @ [Redirect, Compile]\<rparr>"

text \<open>\<^verbatim>\<open>compiled = compile(code, "<student_code>", "exec"); exec(compiled, safe_globals)\<close>.\<close>

definition run_source :: "env \<Rightarrow> string \<Rightarrow> xstate \<Rightarrow> outcome" where
  "run_source e src st0 =
     (case py_compile e src of
        Inl x \<Rightarrow> Raised x st0
      | Inr prog \<Rightarrow> exec_block e prog (log [ExecStart] st0))"

text \<open>
  \<^verbatim>\<open>_execute_code(code, result_queue, timeout, memory_mb)\<close>. An exception of
  \<^verbatim>\<open>setrlimit\<close> reaches the outer \<^verbatim>\<open>except Exception\<close>; the compiler and the snippet run
  inside the inner \<^verbatim>\<open>try\<close>.
\<close>

definition worker_execute_code :: "env \<Rightarrow> string \<Rightarrow> int \<Rightarrow> int \<Rightarrow> worker_run" where
  "worker_execute_code e src timeout memory_mb =
     (case apply_limits e timeout memory_mb of
        Inl x \<Rightarrow>
          (if isinstance x Exception then
             (let d = \<lparr>stdout = [], stderr = msg x, success = False,
                        error_type = Some ''runtime'', execution_time_ms = elapsed_ms e\<rparr>
              in \<lparr>w_trace = map (\<lambda>_. QueuePut) (queue_put e d), w_queue = queue_put e d,
                  w_returned = True, w_killed = False\<rparr>)
           else \<lparr>w_trace = [], w_queue = [], w_returned = True, w_killed = False\<rparr>)
      | Inr evs \<Rightarrow>
          (case run_source e src (start_state e timeout evs) of
             Normal st \<Rightarrow>
               finish e st
                 (Some \<lparr>stdout = out st, stderr = err st, success = True,
                        error_type = None, execution_time_ms = elapsed_ms e\<rparr>)
           | Raised x st \<Rightarrow> finish e st (classify e timeout memory_mb x st)
           | Diverges st \<Rightarrow>
               \<lparr>w_trace = trace st, w_queue = [], w_returned = False, w_killed = False\<rparr>
           | Killed st \<Rightarrow>
               \<lparr>w_trace = trace st, w_queue = [], w_returned = False, w_killed = True\<rparr>))"

section \<open>The timeout and cancellation supervisor\<close>

text \<open>What the parent process does to the worker process, in order.\<close>

datatype sevent = ProcStart | ProcJoin int | ProcKill | QueueGet

text \<open>
  A process that has put an item on a \<^verbatim>\<open>multiprocessing.Queue\<close> does not exit before
  the queue's feeder thread has written the pickled item into the pipe, and a pipe that nobody
  reads takes no more than its capacity (the library's documentation, ``Joining processes that
  use queues''). The supervisor reads the queue only after the join, so a worker whose pickled
  result is larger than the pipe is still alive when the join returns. The size of the pickled
  dict (a function of its two texts) and the capacity of the pipe belong to the environment.
\<close>

definition exit_blocked :: "env \<Rightarrow> worker_run \<Rightarrow> bool" where
  "exit_blocked e run =
     list_ex (\<lambda>r. pipe_capacity e < pickle_size e (stdout r) (stderr r)) (w_queue run)"

text \<open>\<^verbatim>\<open>process.is_alive()\<close> after the bounded join, and the queue as the parent finds it.\<close>

definition is_alive :: "env \<Rightarrow> worker_run \<Rightarrow> bool" where
  "is_alive e run =
     (case fate e of
        Undisturbed \<Rightarrow> (\<not> w_returned run \<and> \<not> w_killed run) \<or> exit_blocked e run
      | KilledEarly \<Rightarrow> False
      | StillRunning \<Rightarrow> True)"

definition result_queue :: "env \<Rightarrow> worker_run \<Rightarrow> exec_result list" where
  "result_queue e run = (case fate e of KilledEarly \<Rightarrow> [] | _ \<Rightarrow> w_queue run)"

text \<open>
  \<^verbatim>\<open>execute_sandboxed(code, timeout, memory_mb)\<close>: the result, or the exception of
  \<^verbatim>\<open>process.start()\<close>, together with what the supervisor did.
\<close>

definition execute_sandboxed ::
  "env \<Rightarrow> string \<Rightarrow> int \<Rightarrow> int \<Rightarrow> (py_exc + exec_result) \<times> sevent list" where
  "execute_sandboxed e src timeout memory_mb =
     (case start_error e of
        Some m \<Rightarrow> (Inl (PyExc OSError m None), [])
      | None \<Rightarrow>
          (let run = worker_execute_code e src timeout memory_mb in
           if is_alive e run then
             (Inr \<lparr>stdout = [],
                   stderr = ''TimeoutError: Code exceeded '' @ str_int timeout @ '' second time limit'',
                   success = False, error_type = Some ''timeout'',
                   execution_time_ms = timeout * 1000\<rparr>,
              [ProcStart, ProcJoin (timeout + 2), ProcKill, ProcJoin 2])
           else
             (case result_queue e run of
                r # _ \<Rightarrow> (Inr r, [ProcStart, ProcJoin (timeout + 2), QueueGet])
              | [] \<Rightarrow>
                  (Inr \<lparr>stdout = [], stderr = ''Execution failed: no result returned'',
                        success = False, error_type = Some ''runtime'',
                        execution_time_ms = 0\<rparr>,
                   [ProcStart, ProcJoin (timeout + 2)]))))"

section \<open>The gateway endpoint\<close>

record ExecuteRequest =
  code :: string
  timeout :: int
  memory_mb :: int


definition dangerous :: "string list" where
  "dangerous =
     [''import os'', ''import subprocess'', ''import socket'', ''import shutil'',
      ''__import__'', ''eval('', ''exec('', ''compile('']"

text \<open>The loop \<^verbatim>\<open>for pattern in dangerous\<close>: the first pattern found in the lowered code.\<close>

definition first_dangerous :: "string \<Rightarrow> string option" where
  "first_dangerous src = find (\<lambda>pattern. sublist (lower pattern) (lower src)) dangerous"

text \<open>\<^verbatim>\<open>execute_code(request)\<close>: the response and what the supervisor did, if it was called.\<close>

definition execute_code :: "env \<Rightarrow> ExecuteRequest \<Rightarrow> exec_result \<times> sevent list" where
  "execute_code e req =
     (case first_dangerous (code req) of
        Some pattern \<Rightarrow>
          (\<lparr>stdout = [],
            stderr = ''SecurityError: '' @ [CHR 0x27] @ pattern @ [CHR 0x27]
                       @ '' is not allowed in the sandbox'',
            success = False, error_type = Some ''runtime'', execution_time_ms = 0\<rparr>, [])
      | None \<Rightarrow>
          (case execute_sandboxed e (code req) (timeout req) (memory_mb req) of
             (Inr result, evs) \<Rightarrow> (result, evs)
           | (Inl x, evs) \<Rightarrow>
               (\<lparr>stdout = [], stderr = ''InternalError: '' @ msg x, success = False,
                 error_type = Some ''runtime'', execution_time_ms = 0\<rparr>, evs)))"

section \<open>Notions used to state the properties\<close>


text \<open>The seconds the supervisor can spend blocked in \<^verbatim>\<open>join\<close>.\<close>

fun join_budget :: "sevent list \<Rightarrow> int" where
  "join_budget [] = 0"
| "join_budget (ProcJoin d # evs) = d + join_budget evs"
| "join_budget (_ # evs) = join_budget evs"

text \<open>The state an outcome ends in.\<close>

fun state_of :: "outcome \<Rightarrow> xstate" where
  "state_of (Normal st) = st"
| "state_of (Raised _ st) = st"
| "state_of (Diverges st) = st"
| "state_of (Killed st) = st"

text \<open>
  Where a path leads: its components, with empty and \<^verbatim>\<open>.\<close> components dropped and
  \<^verbatim>\<open>..\<close> stepping back. An absolute path lies inside a directory when the directory's
  components begin its own.
\<close>

definition split_path :: "string \<Rightarrow> string list" where
  "split_path p =
     foldr (\<lambda>c acc. if c = CHR ''/'' then [] # acc else (c # hd acc) # tl acc) p [[]]"

definition norm_step :: "string list \<Rightarrow> string \<Rightarrow> string list" where
  "norm_step stack part =
     (if part = [] \<or> part = ''.'' then stack
      else if part = ''..'' then butlast stack
      else stack @ [part])"

definition normpath :: "string \<Rightarrow> string list" where
  "normpath p = foldl norm_step [] (split_path p)"

definition path_inside :: "string \<Rightarrow> string \<Rightarrow> bool" where
  "path_inside dir p = (prefix ''/'' p \<and> prefix (normpath dir) (normpath p))"

text \<open>
  The events a snippet can cause: an import that \<^verbatim>\<open>safe_import\<close> let through, an open
  that \<^verbatim>\<open>safe_open\<close> let through.
\<close>

definition snippet_event :: "env \<Rightarrow> wevent \<Rightarrow> bool" where
  "snippet_event e ev =
     (case ev of
        OriginalImport n \<Rightarrow> \<not> import_blocked n
      | OriginalOpen f m \<Rightarrow> prefix ''/tmp'' f \<or> prefix (tempdir e) f
      | _ \<Rightarrow> False)"

text \<open>The decimal digits that occur in a text.\<close>

definition digits_of :: "string \<Rightarrow> string" where
  "digits_of s = filter (\<lambda>c. c \<in> set ''0123456789'') s"

section \<open>An example environment\<close>

text \<open>
  A Linux host with the worker running as root in a process small enough for its limit:
  \<^verbatim>\<open>setrlimit\<close> and \<^verbatim>\<open>SIGALRM\<close> exist, the feeder thread starts, the temporary
  directory is \<^verbatim>\<open>/tmp\<close>, a pipe holds 65536 bytes, the pickled dict is at least as long as
  its two texts, and the run takes 12.3 milliseconds. The compiler is given on the snippets used
  below, among them those of \<^verbatim>\<open>tests/test_sandbox.py\<close>.
\<close>

text \<open>What \<^verbatim>\<open>print("x" * 100000)\<close> writes.\<close>

definition big_line :: string where
  "big_line = replicate 100000 (CHR ''x'') @ ''\<newline>''"

definition demo_compile :: "string \<Rightarrow> py_exc + stmt list" where
  \<open>demo_compile src =
     (if src = ''print("hello")'' then Inr [Write Stdout ''hello\<newline>'']
      else if src = ''print(1/0)'' then
        Inr [Raise (PyExc ZeroDivisionError ''division by zero'' None)]
      else if src = ''import subprocess'' then Inr [Import ''subprocess'']
      else if src = ''import http.client'' then Inr [Import ''http.client'']
      else if src = ''try:\<newline>    import subprocess\<newline>except Exception:\<newline>    pass'' then
        Inr [Try [Import ''subprocess''] []]
      else if src = ''print("x" * 100000)'' then
        Inr [Write Stdout big_line]
      else if src = ''while True: pass'' then Inr [Spin]
      else if src = ''import time\<newline>try:\<newline>    time.sleep(60)\<newline>except Exception:\<newline>    time.sleep(60)''
        then Inr [Import ''time'', Try [Sleep] [Sleep]]
      else if src = ''x = []\<newline>while True:\<newline>    x.append(bytearray(1000000))'' then
        Inr [Raise (PyExc MemoryError [] None)]
      else if src = ''x = 1'' @ [CHR 0x00] then
        Inl (PyExc SyntaxError ''source code string cannot contain null bytes'' None)
      else if src = ''raise SystemExit'' then Inr [Raise (PyExc SystemExit [] None)]
      else if src = ''x = [0] * (10 ** 10)'' then Inr [Raise (PyExc MemoryError [] None)]
      else if src = ''open("/tmpevil/secret.txt")'' then Inr [Open ''/tmpevil/secret.txt'' ''r'']
      else if src = ''def foo('' then
        Inl (PyExc SyntaxError ([CHR 0x27] @ ''('' @ [CHR 0x27] @ '' was never closed'') (Some 1))
      else Inl (PyExc SyntaxError ''invalid syntax'' (Some 1)))\<close>

definition demo_env :: env where
  \<open>demo_env =
     \<lparr>has_setrlimit = True,
      setrlimit_error = (\<lambda>_ _ _. None),
      has_sigalrm = True,
      tempdir = ''/tmp'',
      py_compile = demo_compile,
      original_import = (\<lambda>_. None),
      original_open = (\<lambda>_ _. None),
      tb_frames = (\<lambda>_. ''  File "<student_code>", line 1, in <module>\<newline>''),
      t_start = 100,
      t_end = 100.0123,
      fate = Undisturbed,
      start_error = None,
      pickle_size = (\<lambda>so se. length so + length se),
      pipe_capacity = 65536,
      feeder_starts = True\<rparr>\<close>

text \<open>
  The same host with a worker that cannot start a thread: it does not run as root, so that
  the process limit of zero applies to it, or its address space is used up.
\<close>

definition no_thread_env :: env where
  "no_thread_env = demo_env\<lparr>feeder_starts := False\<rparr>"


section \<open>Auxiliary facts\<close>


lemma lower_append: "lower (a @ b) = lower a @ lower b"
  by (simp add: lower_def)

lemma lower_dangerous: "p \<in> set dangerous \<Longrightarrow> lower p = p"
  by (auto simp: dangerous_def lower_def lower_char_def)

lemma first_dangerous_None:
  "(first_dangerous src = None) = (\<forall>p\<in>set dangerous. \<not> sublist p (lower src))"
  by (auto simp: first_dangerous_def find_None_iff lower_dangerous)

lemma first_dangerous_in: "first_dangerous src = Some p \<Longrightarrow> p \<in> set dangerous \<and> sublist p (lower src)"
  unfolding first_dangerous_def by (auto simp: find_Some_iff lower_dangerous nth_mem)

lemma reject:
  assumes "first_dangerous (code req) = Some p"
  shows "execute_code e req =
      (\<lparr>stdout = [],
        stderr = ''SecurityError: '' @ [CHR 0x27] @ p @ [CHR 0x27] @ '' is not allowed in the sandbox'',
        success = False, error_type = Some ''runtime'', execution_time_ms = 0\<rparr>, [])"
  using assms by (simp add: execute_code_def)

lemma supervisor_alive:
  assumes "start_error e = None" and "is_alive e (worker_execute_code e src t m)"
  shows "execute_sandboxed e src t m =
      (Inr \<lparr>stdout = [],
            stderr = ''TimeoutError: Code exceeded '' @ str_int t @ '' second time limit'',
            success = False, error_type = Some ''timeout'', execution_time_ms = t * 1000\<rparr>,
       [ProcStart, ProcJoin (t + 2), ProcKill, ProcJoin 2])"
  using assms by (simp add: execute_sandboxed_def)

lemma supervisor_relay:
  assumes "start_error e = None" and "\<not> is_alive e (worker_execute_code e src t m)"
    and "result_queue e (worker_execute_code e src t m) = r # rs"
  shows "execute_sandboxed e src t m = (Inr r, [ProcStart, ProcJoin (t + 2), QueueGet])"
  using assms by (simp add: execute_sandboxed_def)

lemma supervisor_dead:
  assumes "start_error e = None" and "\<not> is_alive e (worker_execute_code e src t m)"
    and "result_queue e (worker_execute_code e src t m) = []"
  shows "execute_sandboxed e src t m =
      (Inr \<lparr>stdout = [], stderr = ''Execution failed: no result returned'',
            success = False, error_type = Some ''runtime'', execution_time_ms = 0\<rparr>,
       [ProcStart, ProcJoin (t + 2)])"
  using assms by (simp add: execute_sandboxed_def)














lemma exec_trace:
  "\<exists>es. trace (state_of (exec_stmt e s st)) = trace st @ es \<and> list_all (snippet_event e) es"
  "\<exists>es. trace (state_of (exec_block e ss st)) = trace st @ es \<and> list_all (snippet_event e) es"
proof (induction e s st and e ss st rule: exec_stmt_exec_block.induct)
  case (3 e name st)
  then show ?case
    by (auto simp: safe_import_def log_def snippet_event_def split: option.splits)
next
  case (4 e f md st)
  then show ?case
    by (auto simp: safe_open_def log_def snippet_event_def split: option.splits)
next
  case (8 e body handler st)
  show ?case
  proof (cases "exec_block e body st")
    case (Raised x st')
    show ?thesis
    proof (cases "isinstance x Exception")
      case True
      from "8.IH"(1) Raised obtain es1 where
        1: "trace st' = trace st @ es1" "list_all (snippet_event e) es1" by auto
      from "8.IH"(2) [OF Raised True] obtain es2 where
        2: "trace (state_of (exec_block e handler st')) = trace st' @ es2"
           "list_all (snippet_event e) es2" by auto
      from 1 2 Raised True show ?thesis by auto
    next
      case False
      with "8.IH"(1) Raised show ?thesis by auto
    qed
  qed (use "8.IH"(1) in auto)
next
  case (10 e s ss st)
  show ?case
  proof (cases "exec_stmt e s st")
    case (Normal st')
    from "10.IH"(1) Normal obtain es1 where
      1: "trace st' = trace st @ es1" "list_all (snippet_event e) es1" by auto
    from "10.IH"(2) [OF Normal] obtain es2 where
      2: "trace (state_of (exec_block e ss st')) = trace st' @ es2"
         "list_all (snippet_event e) es2" by auto
    from 1 2 Normal show ?thesis by auto
  qed (use "10.IH"(1) in auto)
qed auto

text \<open>The definitions unfolded to run the model on a concrete snippet.\<close>

lemmas run_defs =
  worker_execute_code_def apply_limits_def setrlimit_def start_state_def run_source_def
  log_def finish_def queue_put_def classify_def is_alive_def exit_blocked_def result_queue_def
  isinstance_def issubclass_def safe_import_def safe_open_def

section \<open>The gateway pre-filter\<close>

text \<open>
  Claim C9. When the static scan of the gateway finds a disallowed pattern in the submitted
  source, the endpoint answers at once with the security message: \<open>success\<close> is false,
  \<open>stdout\<close> is empty, \<open>error_type\<close> is \<^verbatim>\<open>runtime\<close>, \<open>stderr\<close> names the pattern, and
  the supervisor is never called, so no worker process is started.
\<close>

theorem prefilter_short_circuits:
  assumes "first_dangerous (code req) = Some p"
  shows "p \<in> set dangerous \<and> sublist p (lower (code req))
       \<and> execute_code e req =
           (\<lparr>stdout = [],
             stderr = ''SecurityError: '' @ [CHR 0x27] @ p @ [CHR 0x27]
                        @ '' is not allowed in the sandbox'',
             success = False, error_type = Some ''runtime'', execution_time_ms = 0\<rparr>, [])
       \<and> ProcStart \<notin> set (snd (execute_code e req))"
  using assms first_dangerous_in [OF assms] by (simp add: reject)

theorem prefilter_short_circuits_witness:
  "first_dangerous (code \<lparr>code = ''import socket'', timeout = 5, memory_mb = 50\<rparr>) = Some ''import socket''
   \<and> execute_code demo_env \<lparr>code = ''import socket'', timeout = 5, memory_mb = 50\<rparr> =
       (\<lparr>stdout = [],
         stderr = ''SecurityError: '' @ [CHR 0x27] @ ''import socket'' @ [CHR 0x27]
                    @ '' is not allowed in the sandbox'',
         success = False, error_type = Some ''runtime'', execution_time_ms = 0\<rparr>, [])"
proof -
  have h: "first_dangerous (code \<lparr>code = ''import socket'', timeout = 5, memory_mb = 50\<rparr>)
             = Some ''import socket''"
    by (simp add: first_dangerous_def dangerous_def lower_def lower_char_def sublist_code)
  from prefilter_short_circuits [OF h, of demo_env] h show ?thesis by simp
qed

text \<open>
  Claim C10. The scan is a case-insensitive substring match over the whole source: a
  request whose code holds, at any position and in any mix of upper and lower case, one of
  the eight patterns is rejected with \<open>success\<close> false, \<open>error_type\<close> \<^verbatim>\<open>runtime\<close> and
  \<open>execution_time_ms\<close> 0, and nothing is executed.
\<close>

theorem prefilter_case_insensitive_substring:
  assumes "p \<in> set dangerous" and "lower s = p" and "code req = pre @ s @ post"
  shows "success (fst (execute_code e req)) = False
       \<and> error_type (fst (execute_code e req)) = Some ''runtime''
       \<and> execution_time_ms (fst (execute_code e req)) = 0
       \<and> stdout (fst (execute_code e req)) = []
       \<and> snd (execute_code e req) = []"
proof -
  have "lower (code req) = lower pre @ p @ lower post"
    using assms by (simp add: lower_append)
  then have "sublist p (lower (code req))"
    by (simp add: sublist_def) blast
  with assms(1) have "first_dangerous (code req) \<noteq> None"
    by (auto simp: first_dangerous_None)
  then obtain q where "first_dangerous (code req) = Some q" by blast
  then show ?thesis by (simp add: reject)
qed

theorem prefilter_case_insensitive_substring_witness:
  "''import os'' \<in> set dangerous \<and> lower ''Import OS'' = ''import os''
   \<and> success (fst (execute_code demo_env
        \<lparr>code = ''# '' @ ''Import OS'' @ ''.path'', timeout = 5, memory_mb = 50\<rparr>)) = False
   \<and> error_type (fst (execute_code demo_env
        \<lparr>code = ''# '' @ ''Import OS'' @ ''.path'', timeout = 5, memory_mb = 50\<rparr>)) = Some ''runtime''
   \<and> execution_time_ms (fst (execute_code demo_env
        \<lparr>code = ''# '' @ ''Import OS'' @ ''.path'', timeout = 5, memory_mb = 50\<rparr>)) = 0
   \<and> snd (execute_code demo_env
        \<lparr>code = ''# '' @ ''Import OS'' @ ''.path'', timeout = 5, memory_mb = 50\<rparr>) = []"
proof -
  have a: "''import os'' \<in> set dangerous" by (simp add: dangerous_def)
  have b: "lower ''Import OS'' = ''import os''" by (simp add: lower_def lower_char_def)
  have c: "code \<lparr>code = ''# '' @ ''Import OS'' @ ''.path'', timeout = 5, memory_mb = 50\<rparr>
             = ''# '' @ ''Import OS'' @ ''.path''" by simp
  from prefilter_case_insensitive_substring [OF a b c, of demo_env] a b show ?thesis by blast
qed

section \<open>The supervisor\<close>

text \<open>
  Claim C2. When the wait of \<open>timeout + 2\<close> seconds ends without the worker having
  finished (\<^verbatim>\<open>process.is_alive()\<close> holds after the bounded join: no report has been taken and
  the process has not exited), the supervisor kills the process and returns the synthesized
  result: \<open>success\<close> false, \<open>error_type\<close> \<^verbatim>\<open>timeout\<close>, empty \<open>stdout\<close>, and
  \<open>execution_time_ms\<close> exactly \<open>timeout * 1000\<close>. Both joins are bounded: the supervisor is
  blocked for at most \<open>timeout + 4\<close> seconds. The snippet of the witness sleeps, takes the
  \<^verbatim>\<open>TimeoutError\<close> of the alarm in its own handler and sleeps again.
\<close>

theorem supervisor_kills_at_deadline:
  assumes "start_error e = None" and "is_alive e (worker_execute_code e src t m)"
  shows "execute_sandboxed e src t m =
           (Inr \<lparr>stdout = [],
                 stderr = ''TimeoutError: Code exceeded '' @ str_int t @ '' second time limit'',
                 success = False, error_type = Some ''timeout'', execution_time_ms = t * 1000\<rparr>,
            [ProcStart, ProcJoin (t + 2), ProcKill, ProcJoin 2])
       \<and> join_budget (snd (execute_sandboxed e src t m)) = t + 4"
  using supervisor_alive [OF assms] by simp

theorem supervisor_kills_at_deadline_witness:
  "start_error demo_env = None
   \<and> is_alive demo_env
        (worker_execute_code demo_env
           ''import time\<newline>try:\<newline>    time.sleep(60)\<newline>except Exception:\<newline>    time.sleep(60)'' 2 50)
   \<and> execute_sandboxed demo_env
        ''import time\<newline>try:\<newline>    time.sleep(60)\<newline>except Exception:\<newline>    time.sleep(60)'' 2 50 =
        (Inr \<lparr>stdout = [], stderr = ''TimeoutError: Code exceeded 2 second time limit'',
              success = False, error_type = Some ''timeout'', execution_time_ms = 2000\<rparr>,
         [ProcStart, ProcJoin 4, ProcKill, ProcJoin 2])"
proof -
  let ?src = "''import time\<newline>try:\<newline>    time.sleep(60)\<newline>except Exception:\<newline>    time.sleep(60)''"
  have a: "start_error demo_env = None"
    by (simp add: demo_env_def)
  have c: "py_compile demo_env ?src = Inr [Import ''time'', Try [Sleep] [Sleep]]"
    by (simp add: demo_env_def demo_compile_def)
  have l: "apply_limits demo_env 2 50 =
      Inr [SetRLimit RLIMIT_AS 52428800 52428800, SetRLimit RLIMIT_CPU 3 4, SetRLimit RLIMIT_NPROC 0 0]"
    by (simp add: apply_limits_def setrlimit_def demo_env_def)
  have i: "\<not> import_blocked ''time''"
    by (simp add: import_blocked_def BLOCKED_MODULES_def)
  have env: "has_sigalrm demo_env" "has_setrlimit demo_env" "original_import demo_env = (\<lambda>_. None)"
    "fate demo_env = Undisturbed"
    by (simp_all add: demo_env_def)
  have w: "\<not> w_returned (worker_execute_code demo_env ?src 2 50)
         \<and> \<not> w_killed (worker_execute_code demo_env ?src 2 50)"
    by (simp add: worker_execute_code_def run_source_def start_state_def log_def safe_import_def
        isinstance_def issubclass_def l c i env)
  then have b: "is_alive demo_env (worker_execute_code demo_env ?src 2 50)"
    by (simp add: is_alive_def env)
  have s: "str_int 2 = ''2''"
    by (simp add: str_int_def str_nat.simps digit_char_def)
  from supervisor_kills_at_deadline [OF a b] a b s show ?thesis by simp
qed





section \<open>The worker\<close>

lemma apply_limits_Inr:
  assumes "apply_limits e t m = Inr evs"
  shows "evs = (if has_setrlimit e
                then [SetRLimit RLIMIT_AS (m * 1024 * 1024) (m * 1024 * 1024),
                      SetRLimit RLIMIT_CPU (t + 1) (t + 2), SetRLimit RLIMIT_NPROC 0 0]
                else [])"
  using assms
  by (auto simp: apply_limits_def setrlimit_def Let_def split: if_splits option.splits sum.splits)

lemma run_source_trace:
  "\<exists>es. trace (state_of (run_source e src st0)) = trace st0 @ es
        \<and> list_all (\<lambda>ev. ev = ExecStart \<or> snippet_event e ev) es"
proof (cases "py_compile e src")
  case (Inl x)
  then show ?thesis by (simp add: run_source_def)
next
  case (Inr prog)
  from exec_trace(2) [of e prog "log [ExecStart] st0"] obtain es where
    "trace (state_of (exec_block e prog (log [ExecStart] st0))) = trace (log [ExecStart] st0) @ es"
    "list_all (snippet_event e) es" by blast
  then have "trace (state_of (run_source e src st0)) = trace st0 @ (ExecStart # es)
        \<and> list_all (\<lambda>ev. ev = ExecStart \<or> snippet_event e ev) (ExecStart # es)"
    using Inr by (simp add: run_source_def log_def list_all_iff)
  then show ?thesis by blast
qed




lemma str_nat_nonempty: "str_nat n \<noteq> []"
  by (subst str_nat.simps) simp

lemma relay_single:
  assumes "w_queue (worker_execute_code e src t m) = [r]"
    and "w_returned (worker_execute_code e src t m)"
    and "start_error e = None" and "fate e = Undisturbed"
    and "pickle_size e (stdout r) (stderr r) \<le> pipe_capacity e"
  shows "fst (execute_sandboxed e src t m) = Inr r"
proof -
  let ?run = "worker_execute_code e src t m"
  have "\<not> is_alive e ?run"
    using assms by (simp add: is_alive_def exit_blocked_def)
  moreover have "result_queue e ?run = [r]"
    using assms by (simp add: result_queue_def)
  ultimately show ?thesis
    using assms(3) by (simp add: supervisor_relay)
qed

lemma nothing_delivered:
  assumes "\<not> feeder_starts e"
  shows "w_queue (worker_execute_code e src t m) = []"
  using assms
  by (auto simp: worker_execute_code_def finish_def queue_put_def Let_def
      split: sum.splits outcome.splits option.splits)

text \<open>
  Claim C4, as stated, fails. A source with a NUL byte is rejected by \<^verbatim>\<open>compile\<close> with a
  \<^verbatim>\<open>SyntaxError\<close> that carries no line number, and the message of the worker then reads
  \<^verbatim>\<open>(line None)\<close>: no number is in it. And where the worker cannot start the feeder thread
  of its queue, the report of \<^verbatim>\<open>def foo(\<close> never reaches the supervisor, which answers
  \<^verbatim>\<open>runtime\<close> with \<^verbatim>\<open>Execution failed: no result returned\<close>; that is the defect shown
  under claim C6, and the amended claim leaves it aside.
\<close>

theorem compile_failure_counterexample:
  "py_compile demo_env (''x = 1'' @ [CHR 0x00]) =
       Inl (PyExc SyntaxError ''source code string cannot contain null bytes'' None)
   \<and> fst (execute_sandboxed demo_env (''x = 1'' @ [CHR 0x00]) 5 50) =
       Inr \<lparr>stdout = [],
             stderr = ''SyntaxError: source code string cannot contain null bytes (line None)'',
             success = False, error_type = Some ''syntax'', execution_time_ms = 12\<rparr>
   \<and> digits_of ''SyntaxError: source code string cannot contain null bytes (line None)'' = []
   \<and> fst (execute_sandboxed no_thread_env ''def foo('' 5 50) =
       Inr \<lparr>stdout = [], stderr = ''Execution failed: no result returned'',
             success = False, error_type = Some ''runtime'', execution_time_ms = 0\<rparr>"
proof -
  let ?src = "''x = 1'' @ [CHR 0x00]"
  let ?x = "PyExc SyntaxError ''source code string cannot contain null bytes'' None"
  let ?r = "\<lparr>stdout = [],
             stderr = ''SyntaxError: source code string cannot contain null bytes (line None)'',
             success = False, error_type = Some ''syntax'', execution_time_ms = 12\<rparr>"
  have p: "py_compile demo_env ?src = Inl ?x"
    by (simp add: demo_env_def demo_compile_def)
  have l: "apply_limits demo_env 5 50 =
      Inr [SetRLimit RLIMIT_AS 52428800 52428800, SetRLimit RLIMIT_CPU 6 7, SetRLimit RLIMIT_NPROC 0 0]"
    by (simp add: apply_limits_def setrlimit_def demo_env_def)
  have t: "elapsed_ms demo_env = 12"
    by (simp add: elapsed_ms_def py_int_def demo_env_def)
  have env: "feeder_starts demo_env" "fate demo_env = Undisturbed" "start_error demo_env = None"
    "pipe_capacity demo_env = 65536" "pickle_size demo_env = (\<lambda>so se. length so + length se)"
    by (simp_all add: demo_env_def)
  have c: "classify demo_env 5 50 ?x st = Some (?r\<lparr>stdout := out st\<rparr>)" for st
    by (simp add: classify_def isinstance_def issubclass_def str_lineno_def t)
  have q: "w_queue (worker_execute_code demo_env ?src 5 50) = [?r]"
    "w_returned (worker_execute_code demo_env ?src 5 50)"
    using p by (simp_all add: worker_execute_code_def run_source_def start_state_def finish_def
        queue_put_def l c env)
  have a: "fst (execute_sandboxed demo_env ?src 5 50) = Inr ?r"
    using q by (rule relay_single) (simp_all add: env)
  have d: "digits_of ''SyntaxError: source code string cannot contain null bytes (line None)'' = []"
    by (simp add: digits_of_def)
  have n: "\<not> feeder_starts no_thread_env" "fate no_thread_env = Undisturbed"
    "start_error no_thread_env = None"
    by (simp_all add: no_thread_env_def demo_env_def)
  have pn: "py_compile no_thread_env ''def foo('' =
      Inl (PyExc SyntaxError ([CHR 0x27] @ ''('' @ [CHR 0x27] @ '' was never closed'') (Some 1))"
    by (simp add: no_thread_env_def demo_env_def demo_compile_def)
  have ln: "apply_limits no_thread_env 5 50 =
      Inr [SetRLimit RLIMIT_AS 52428800 52428800, SetRLimit RLIMIT_CPU 6 7, SetRLimit RLIMIT_NPROC 0 0]"
    by (simp add: apply_limits_def setrlimit_def no_thread_env_def demo_env_def)
  have qn: "w_queue (worker_execute_code no_thread_env ''def foo('' 5 50) = []"
    using n(1) by (rule nothing_delivered)
  have rn: "w_returned (worker_execute_code no_thread_env ''def foo('' 5 50)"
    using pn by (simp add: worker_execute_code_def run_source_def finish_def ln)
  have "\<not> is_alive no_thread_env (worker_execute_code no_thread_env ''def foo('' 5 50)"
    using qn rn by (simp add: is_alive_def exit_blocked_def n)
  moreover have "result_queue no_thread_env (worker_execute_code no_thread_env ''def foo('' 5 50) = []"
    using qn by (simp add: result_queue_def n)
  ultimately have b: "fst (execute_sandboxed no_thread_env ''def foo('' 5 50) =
       Inr \<lparr>stdout = [], stderr = ''Execution failed: no result returned'',
             success = False, error_type = Some ''runtime'', execution_time_ms = 0\<rparr>"
    using n(3) by (simp add: supervisor_dead)
  from p a d b show ?thesis by simp
qed

text \<open>
  Claim C4, amended. When the limits are set, \<^verbatim>\<open>compile\<close> rejects the source with a
  \<^verbatim>\<open>SyntaxError\<close> and the worker can deliver its report, the worker reports exactly one
  result with \<open>success\<close> false and \<open>error_type\<close> \<^verbatim>\<open>syntax\<close>. Its \<open>stderr\<close> is the text
  \<^verbatim>\<open>SyntaxError: <msg> (line <lineno>)\<close>: it is never empty, and it holds the line number
  whenever the error carries one. Nothing of the snippet has run: \<open>stdout\<close> is empty and
  \<^verbatim>\<open>exec\<close> was never reached. The supervisor returns this result when the process could be
  started, nothing disturbs the worker and the pickled result fits into the pipe.
\<close>

theorem compile_failure_is_syntax:
  assumes "apply_limits e t m = Inr evs" and "py_compile e src = Inl x"
    and "isinstance x SyntaxError" and "feeder_starts e"
  shows "\<exists>r. w_queue (worker_execute_code e src t m) = [r]
       \<and> success r = False \<and> error_type r = Some ''syntax'' \<and> stdout r = []
       \<and> stderr r = ''SyntaxError: '' @ msg x @ '' (line '' @ str_lineno (lineno x) @ '')''
       \<and> stderr r \<noteq> []
       \<and> (\<forall>n. lineno x = Some n \<longrightarrow> sublist (''line '' @ str_nat n) (stderr r))
       \<and> ExecStart \<notin> set (w_trace (worker_execute_code e src t m))
       \<and> (start_error e = None \<and> fate e = Undisturbed
            \<and> pickle_size e [] (stderr r) \<le> pipe_capacity e
          \<longrightarrow> fst (execute_sandboxed e src t m) = Inr r)"
proof -
  let ?run = "worker_execute_code e src t m"
  let ?r = "\<lparr>stdout = [],
             stderr = ''SyntaxError: '' @ msg x @ '' (line '' @ str_lineno (lineno x) @ '')'',
             success = False, error_type = Some ''syntax'', execution_time_ms = elapsed_ms e\<rparr>"
  have run: "?run = finish e (start_state e t evs) (Some ?r)"
    using assms by (simp add: worker_execute_code_def run_source_def classify_def start_state_def)
  then have q: "w_queue ?run = [?r]" and ret: "w_returned ?run"
    using assms(4) by (simp_all add: finish_def queue_put_def)
  have "ExecStart \<notin> set evs"
    using apply_limits_Inr [OF assms(1)] by (auto split: if_splits)
  then have tr: "ExecStart \<notin> set (w_trace ?run)"
    using assms(4) by (simp add: run finish_def queue_put_def start_state_def)
  have line: "sublist (''line '' @ str_nat n) (stderr ?r)" if "lineno x = Some n" for n
  proof -
    have "stderr ?r = (''SyntaxError: '' @ msg x @ '' ('') @ (''line '' @ str_nat n) @ '')''"
      using that by (simp add: str_lineno_def)
    then show ?thesis by (metis sublist_appendI)
  qed
  have relay: "fst (execute_sandboxed e src t m) = Inr ?r"
    if "start_error e = None \<and> fate e = Undisturbed
          \<and> pickle_size e [] (stderr ?r) \<le> pipe_capacity e"
    using q ret that by (intro relay_single) simp_all
  from q tr line relay show ?thesis by simp
qed

theorem compile_failure_is_syntax_witness:
  "apply_limits demo_env 5 50 =
      Inr [SetRLimit RLIMIT_AS 52428800 52428800, SetRLimit RLIMIT_CPU 6 7, SetRLimit RLIMIT_NPROC 0 0]
   \<and> py_compile demo_env ''def foo('' =
        Inl (PyExc SyntaxError ([CHR 0x27] @ ''('' @ [CHR 0x27] @ '' was never closed'') (Some 1))
   \<and> isinstance (PyExc SyntaxError ([CHR 0x27] @ ''('' @ [CHR 0x27] @ '' was never closed'') (Some 1))
        SyntaxError
   \<and> feeder_starts demo_env
   \<and> fst (execute_sandboxed demo_env ''def foo('' 5 50) =
        Inr \<lparr>stdout = [],
              stderr = ''SyntaxError: '' @ [CHR 0x27] @ ''('' @ [CHR 0x27] @ '' was never closed (line 1)'',
              success = False, error_type = Some ''syntax'', execution_time_ms = 12\<rparr>"
proof -
  let ?x = "PyExc SyntaxError ([CHR 0x27] @ ''('' @ [CHR 0x27] @ '' was never closed'') (Some 1)"
  have a: "apply_limits demo_env 5 50 =
      Inr [SetRLimit RLIMIT_AS 52428800 52428800, SetRLimit RLIMIT_CPU 6 7, SetRLimit RLIMIT_NPROC 0 0]"
    by (simp add: apply_limits_def setrlimit_def demo_env_def)
  have b: "py_compile demo_env ''def foo('' = Inl ?x"
    by (simp add: demo_env_def demo_compile_def)
  have c: "isinstance ?x SyntaxError" by (simp add: isinstance_def issubclass_def)
  have f: "feeder_starts demo_env" by (simp add: demo_env_def)
  have l: "str_lineno (Some (Suc 0)) = ''1''"
    by (simp add: str_lineno_def str_nat.simps digit_char_def)
  have t: "elapsed_ms demo_env = 12" by (simp add: elapsed_ms_def py_int_def demo_env_def)
  have env: "start_error demo_env = None" "fate demo_env = Undisturbed"
    "pipe_capacity demo_env = 65536" "pickle_size demo_env = (\<lambda>so se. length so + length se)"
    by (simp_all add: demo_env_def)
  from compile_failure_is_syntax [OF a b c f] obtain r where
    r: "w_queue (worker_execute_code demo_env ''def foo('' 5 50) = [r]"
       "stderr r = ''SyntaxError: '' @ msg ?x @ '' (line '' @ str_lineno (lineno ?x) @ '')''"
       "start_error demo_env = None \<and> fate demo_env = Undisturbed
            \<and> pickle_size demo_env [] (stderr r) \<le> pipe_capacity demo_env
          \<longrightarrow> fst (execute_sandboxed demo_env ''def foo('' 5 50) = Inr r"
    by blast
  have s: "stderr r = ''SyntaxError: '' @ [CHR 0x27] @ ''('' @ [CHR 0x27] @ '' was never closed (line 1)''"
    using r(2) by (simp add: l)
  have "w_queue (worker_execute_code demo_env ''def foo('' 5 50) =
     [\<lparr>stdout = [],
       stderr = ''SyntaxError: '' @ [CHR 0x27] @ ''('' @ [CHR 0x27] @ '' was never closed (line 1)'',
       success = False, error_type = Some ''syntax'', execution_time_ms = 12\<rparr>]"
    by (simp add: worker_execute_code_def run_source_def start_state_def finish_def queue_put_def
        classify_def isinstance_def issubclass_def a b f l t)
  with r(1) have req: "r = \<lparr>stdout = [],
       stderr = ''SyntaxError: '' @ [CHR 0x27] @ ''('' @ [CHR 0x27] @ '' was never closed (line 1)'',
       success = False, error_type = Some ''syntax'', execution_time_ms = 12\<rparr>" by simp
  have "fst (execute_sandboxed demo_env ''def foo('' 5 50) = Inr r"
    using r(3) s by (simp add: env)
  with req a b c f show ?thesis by simp
qed

text \<open>
  Where the platform has \<^verbatim>\<open>setrlimit\<close> and the calls succeed, the first three things the
  worker does are to set the address-space limit to \<open>memory_mb\<close> megabytes (soft and hard),
  the CPU-time limit to \<open>timeout + 1\<close> (soft) and \<open>timeout + 2\<close> (hard) seconds, and the
  process limit to zero; the snippet starts only after them. A \<^verbatim>\<open>MemoryError\<close> that leaves
  the snippet is caught, and it is reported with \<open>error_type\<close> \<^verbatim>\<open>memory\<close> when the worker
  can deliver a report.
\<close>

lemma limits_first:
  assumes "has_setrlimit e" and "apply_limits e t m = Inr evs"
  shows "take 3 (w_trace (worker_execute_code e src t m)) =
           [SetRLimit RLIMIT_AS (m * 1024 * 1024) (m * 1024 * 1024),
            SetRLimit RLIMIT_CPU (t + 1) (t + 2),
            SetRLimit RLIMIT_NPROC 0 0]"
proof -
  let ?run = "worker_execute_code e src t m"
  let ?three = "[SetRLimit RLIMIT_AS (m * 1024 * 1024) (m * 1024 * 1024),
            SetRLimit RLIMIT_CPU (t + 1) (t + 2), SetRLimit RLIMIT_NPROC 0 0]"
  let ?st0 = "start_state e t evs"
  have evs: "evs = ?three"
    using apply_limits_Inr [OF assms(2)] assms(1) by simp
  from run_source_trace [of e src ?st0] obtain es where
    es: "trace (state_of (run_source e src ?st0)) = trace ?st0 @ es" by blast
  have st0: "\<exists>rest. trace ?st0 = ?three @ rest"
    by (simp add: start_state_def evs)
  have "\<exists>rest. w_trace ?run = ?three @ rest"
    using es st0 assms(2)
    by (cases "run_source e src ?st0") (auto simp: worker_execute_code_def finish_def)
  then show ?thesis by auto
qed

lemma memory_error_reported:
  assumes "apply_limits e t m = Inr evs"
    and "run_source e src (start_state e t evs) = Raised x st" and "cls x = MemoryError"
    and "feeder_starts e"
  shows "w_queue (worker_execute_code e src t m) =
           [\<lparr>stdout = out st,
             stderr = ''MemoryError: Code exceeded '' @ str_int m @ ''MB memory limit'',
             success = False, error_type = Some ''memory'',
             execution_time_ms = elapsed_ms e\<rparr>]"
  using assms
  by (simp add: worker_execute_code_def finish_def queue_put_def classify_def isinstance_def
      issubclass_def)

text \<open>
  Claim C6 says that the worker sets the three limits before the snippet runs and that
  exceeding the memory limit is caught and classified as \<^verbatim>\<open>memory\<close> instead of the worker
  failing silently. The limits are set, and the \<^verbatim>\<open>MemoryError\<close> of a snippet that fills
  the address space piece by piece is caught; but the report must start the feeder thread of
  the queue, which the limits the worker has just set on itself forbid (no room is left for
  the stack of a thread; and a worker that is not root may start no thread at all). Nothing
  reaches the queue, the worker ends without a report, and the supervisor answers
  \<^verbatim>\<open>runtime\<close> with \<^verbatim>\<open>Execution failed: no result returned\<close>.
\<close>

theorem memory_report_lost:
  "take 3 (w_trace (worker_execute_code no_thread_env
       ''x = []\<newline>while True:\<newline>    x.append(bytearray(1000000))'' 5 50)) =
      [SetRLimit RLIMIT_AS 52428800 52428800, SetRLimit RLIMIT_CPU 6 7, SetRLimit RLIMIT_NPROC 0 0]
   \<and> run_source no_thread_env ''x = []\<newline>while True:\<newline>    x.append(bytearray(1000000))''
        (start_state no_thread_env 5
          [SetRLimit RLIMIT_AS 52428800 52428800, SetRLimit RLIMIT_CPU 6 7, SetRLimit RLIMIT_NPROC 0 0]) =
      Raised (PyExc MemoryError [] None)
        (log [ExecStart] (start_state no_thread_env 5
          [SetRLimit RLIMIT_AS 52428800 52428800, SetRLimit RLIMIT_CPU 6 7, SetRLimit RLIMIT_NPROC 0 0]))
   \<and> w_queue (worker_execute_code no_thread_env
       ''x = []\<newline>while True:\<newline>    x.append(bytearray(1000000))'' 5 50) = []
   \<and> execute_sandboxed no_thread_env
       ''x = []\<newline>while True:\<newline>    x.append(bytearray(1000000))'' 5 50 =
      (Inr \<lparr>stdout = [], stderr = ''Execution failed: no result returned'',
            success = False, error_type = Some ''runtime'', execution_time_ms = 0\<rparr>,
       [ProcStart, ProcJoin 7])"
proof -
  let ?src = "''x = []\<newline>while True:\<newline>    x.append(bytearray(1000000))''"
  let ?evs = "[SetRLimit RLIMIT_AS 52428800 52428800, SetRLimit RLIMIT_CPU 6 7,
               SetRLimit RLIMIT_NPROC 0 0]"
  let ?run = "worker_execute_code no_thread_env ?src 5 50"
  have env: "has_setrlimit no_thread_env" "\<not> feeder_starts no_thread_env"
    "fate no_thread_env = Undisturbed" "start_error no_thread_env = None"
    by (simp_all add: no_thread_env_def demo_env_def)
  have l: "apply_limits no_thread_env 5 50 = Inr ?evs"
    by (simp add: apply_limits_def setrlimit_def no_thread_env_def demo_env_def)
  have p: "py_compile no_thread_env ?src = Inr [Raise (PyExc MemoryError [] None)]"
    by (simp add: no_thread_env_def demo_env_def demo_compile_def)
  have a: "take 3 (w_trace ?run) = ?evs"
    using limits_first [OF env(1) l, of ?src] by simp
  have b: "run_source no_thread_env ?src (start_state no_thread_env 5 ?evs) =
      Raised (PyExc MemoryError [] None) (log [ExecStart] (start_state no_thread_env 5 ?evs))"
    by (simp add: run_source_def p)
  have q: "w_queue ?run = []"
    using env(2) by (rule nothing_delivered)
  have r: "w_returned ?run"
    by (simp add: worker_execute_code_def finish_def l b)
  have "\<not> is_alive no_thread_env ?run"
    using q r by (simp add: is_alive_def exit_blocked_def env)
  moreover have "result_queue no_thread_env ?run = []"
    using q by (simp add: result_queue_def env)
  ultimately have d: "execute_sandboxed no_thread_env ?src 5 50 =
      (Inr \<lparr>stdout = [], stderr = ''Execution failed: no result returned'',
            success = False, error_type = Some ''runtime'', execution_time_ms = 0\<rparr>,
       [ProcStart, ProcJoin 7])"
    using supervisor_dead [of no_thread_env ?src 5 50] env(4) by simp
  from a b q d show ?thesis by simp
qed

section \<open>The capability restriction layer at work\<close>




section \<open>Normal completion\<close>

text \<open>
  A snippet that ends normally is reported as a success with the captured output when the
  worker can deliver its report, and the supervisor relays that result when nothing disturbs
  the worker and the pickled result fits into the pipe of the queue.
\<close>

lemma normal_run_reported:
  assumes "apply_limits e t m = Inr evs"
    and "run_source e src (start_state e t evs) = Normal st"
    and "feeder_starts e"
  shows "w_queue (worker_execute_code e src t m) =
           [\<lparr>stdout = out st, stderr = err st, success = True, error_type = None,
             execution_time_ms = elapsed_ms e\<rparr>]"
  using assms by (simp add: worker_execute_code_def finish_def queue_put_def)

lemma normal_run_relayed:
  assumes "apply_limits e t m = Inr evs"
    and "run_source e src (start_state e t evs) = Normal st"
    and "feeder_starts e"
    and "start_error e = None" and "fate e = Undisturbed"
    and "pickle_size e (out st) (err st) \<le> pipe_capacity e"
  shows "fst (execute_sandboxed e src t m) =
           Inr \<lparr>stdout = out st, stderr = err st, success = True, error_type = None,
                 execution_time_ms = elapsed_ms e\<rparr>"
proof -
  let ?run = "worker_execute_code e src t m"
  have q: "w_queue ?run = [\<lparr>stdout = out st, stderr = err st, success = True, error_type = None,
             execution_time_ms = elapsed_ms e\<rparr>]"
    using assms(1,2,3) by (rule normal_run_reported)
  have "w_returned ?run"
    using assms(1,2) by (simp add: worker_execute_code_def finish_def)
  with q assms(4,5,6) show ?thesis
    by (intro relay_single) simp_all
qed

lemma length_big_line: "length big_line = 100001"
  unfolding big_line_def by (simp only: length_append length_replicate list.size)

text \<open>
  Claim C1 says that every snippet that writes a text to standard output and ends normally
  within the limits comes back with \<open>success\<close> true, no \<open>error_type\<close> and the text in
  \<open>stdout\<close>. The code does not do so for \<^verbatim>\<open>print("x" * 100000)\<close> on the example host:
  the snippet ends normally and the worker puts a success holding the text, but the
  supervisor joins the worker before it reads the queue, the worker cannot exit while its
  result does not fit into the pipe, and after \<open>timeout + 2\<close> seconds the supervisor kills it
  and returns the timeout result with an empty \<open>stdout\<close>.
\<close>

theorem large_output_reported_as_timeout:
  \<open>map stdout (w_queue (worker_execute_code demo_env ''print("x" * 100000)'' 5 50)) = [big_line]
   \<and> sublist (replicate 100000 (CHR ''x'')) big_line
   \<and> map success (w_queue (worker_execute_code demo_env ''print("x" * 100000)'' 5 50)) = [True]
   \<and> w_returned (worker_execute_code demo_env ''print("x" * 100000)'' 5 50)
   \<and> execute_sandboxed demo_env ''print("x" * 100000)'' 5 50 =
       (Inr \<lparr>stdout = [], stderr = ''TimeoutError: Code exceeded 5 second time limit'',
             success = False, error_type = Some ''timeout'', execution_time_ms = 5000\<rparr>,
        [ProcStart, ProcJoin 7, ProcKill, ProcJoin 2])\<close>
proof -
  let ?run = \<open>worker_execute_code demo_env ''print("x" * 100000)'' 5 50\<close>
  have q: "w_queue ?run =
      [\<lparr>stdout = big_line, stderr = [], success = True,
        error_type = None, execution_time_ms = 12\<rparr>]"
    by (simp add: run_defs demo_env_def demo_compile_def elapsed_ms_def py_int_def)
  have r: "w_returned ?run"
    by (simp add: run_defs demo_env_def demo_compile_def)
  have "exit_blocked demo_env ?run"
    unfolding exit_blocked_def q by (simp add: demo_env_def length_big_line)
  then have alive: "is_alive demo_env ?run"
    by (simp add: is_alive_def demo_env_def)
  have s: "str_int 5 = ''5''" by (simp add: str_int_def str_nat.simps digit_char_def)
  have b: "sublist (replicate 100000 (CHR ''x'')) big_line"
    unfolding big_line_def by (rule sublist_append_rightI)
  have "start_error demo_env = None" by (simp add: demo_env_def)
  from supervisor_alive [OF this alive] q r s b show ?thesis by simp
qed

text \<open>
  Claim C8 says that \<^verbatim>\<open>open\<close> succeeds only for paths inside the temporary directory and
  that any other path raises \<^verbatim>\<open>PermissionError\<close>. The code tests the text of the path with
  \<^verbatim>\<open>startswith("/tmp")\<close>: \<^verbatim>\<open>/tmpevil/secret.txt\<close> and \<^verbatim>\<open>/tmp/../etc/passwd\<close> lie
  outside \<^verbatim>\<open>/tmp\<close>, and both are handed on to the built-in \<^verbatim>\<open>open\<close>; a snippet that
  opens the first one ends as a success with the file opened.
\<close>

theorem safe_open_prefix_escape:
  \<open>\<not> path_inside ''/tmp'' ''/tmpevil/secret.txt''
   \<and> safe_open ''/tmp'' ''/tmpevil/secret.txt'' ''r'' = Inr (''/tmpevil/secret.txt'', ''r'')
   \<and> \<not> path_inside ''/tmp'' ''/tmp/../etc/passwd''
   \<and> safe_open ''/tmp'' ''/tmp/../etc/passwd'' ''r'' = Inr (''/tmp/../etc/passwd'', ''r'')
   \<and> OriginalOpen ''/tmpevil/secret.txt'' ''r''
        \<in> set (w_trace (worker_execute_code demo_env ''open("/tmpevil/secret.txt")'' 5 50))
   \<and> map success (w_queue (worker_execute_code demo_env ''open("/tmpevil/secret.txt")'' 5 50))
        = [True]\<close>
proof -
  have t: "normpath ''/tmp'' = [''tmp'']"
    by code_simp
  have a: "normpath ''/tmpevil/secret.txt'' = [''tmpevil'', ''secret.txt'']"
    by code_simp
  have b: "normpath ''/tmp/../etc/passwd'' = [''etc'', ''passwd'']"
    by code_simp
  have c: "safe_open ''/tmp'' ''/tmpevil/secret.txt'' ''r'' = Inr (''/tmpevil/secret.txt'', ''r'')"
    by (simp add: safe_open_def)
  have d: "safe_open ''/tmp'' ''/tmp/../etc/passwd'' ''r'' = Inr (''/tmp/../etc/passwd'', ''r'')"
    by (simp add: safe_open_def)
  have src: \<open>py_compile demo_env ''open("/tmpevil/secret.txt")''
               = Inr [Open ''/tmpevil/secret.txt'' ''r'']\<close>
    by (simp add: demo_env_def demo_compile_def)
  have lim: "apply_limits demo_env 5 50 =
      Inr [SetRLimit RLIMIT_AS 52428800 52428800, SetRLimit RLIMIT_CPU 6 7, SetRLimit RLIMIT_NPROC 0 0]"
    by (simp add: apply_limits_def setrlimit_def demo_env_def)
  have env: "tempdir demo_env = ''/tmp''" "has_sigalrm demo_env"
    "original_open demo_env = (\<lambda>_ _. None)" "feeder_starts demo_env"
    by (simp_all add: demo_env_def)
  have run: \<open>OriginalOpen ''/tmpevil/secret.txt'' ''r''
        \<in> set (w_trace (worker_execute_code demo_env ''open("/tmpevil/secret.txt")'' 5 50))
     \<and> map success (w_queue (worker_execute_code demo_env ''open("/tmpevil/secret.txt")'' 5 50))
        = [True]\<close>
    by (simp add: worker_execute_code_def run_source_def start_state_def finish_def queue_put_def
        log_def lim src env c)
  from t a b c d run show ?thesis
    by (simp add: path_inside_def)
qed

end
